theory Spec2Isabelle
  imports Main "HOL-Library.Sublist"
begin

section \<open>protowhat: the primitive checks of \<open>protowhat/checks/check_funcs.py\<close>\<close>

text \<open>
  The checks navigate a pair of syntax trees (student and solution) held in a State.
  The model follows the Python source function by function. Exceptions are values of
  the type \<open>error\<close>; a primitive returns the messages handed to the reporter so far
  together with either the raised exception or the returned State.
\<close>

subsection \<open>Values held in a tree slot\<close>

text \<open>
  A tree slot of a State holds \<open>None\<close> (no parser in use), an instance of the
  dispatcher's \<open>ParseError\<close> class, a string, a list, or a tree node with a type tag,
  named fields and a source span. Only the declared fields of a node are attributes of it.
\<close>

datatype pyval =
    PNone
  | PParseError
  | PStr string
  | PList "pyval list"
  | PNode string "(string \<times> pyval) list" "nat \<times> nat"

type_synonym msg = "string option"

datatype error =
    TypeError string
  | IndexError string
  | AttributeError string
  | UnboundLocalError string
  | TestFail msg

text \<open>
  The entries of \<open>state.history\<close>: the dictionaries
  \<open>{'type': 'check_node', 'kwargs': {'name': name, 'index': index}, 'node': stu_stmt}\<close>
  and \<open>{'type': 'check_field', 'kwargs': {'name': name, 'index': index}}\<close>.
\<close>

datatype action =
    CheckNodeAction string int pyval
  | CheckFieldAction string "int option"

record state =
  student_ast :: pyval
  solution_ast :: pyval
  student_code :: string
  solution_code :: string
  history :: "action list"

text \<open>
  The two styles the reporter contract allows: \<open>report_failure\<close> leaves by an abrupt
  non-local exit (an exception), or it returns to its caller.
\<close>

datatype reporter = Abrupt | Terminal

text \<open>
  What the checks call but do not define: the AST dispatcher
  (\<open>state.ast_dispatcher(name, slice(None), priority=priority)\<close>, \<open>describe\<close>,
  \<open>ast.parse\<close>), \<open>repr\<close> and \<open>_get_text\<close> of the parser's trees, \<open>State.get_ast_path\<close>,
  \<open>str.format\<close>, \<open>re.search\<close> (its result read as a truth value) and the reporter behind
  \<open>State.do_test\<close>. They are parameters of the checks. \<open>str.format\<close> and \<open>re.search\<close>
  are taken on well-formed templates and patterns.
\<close>

record env =
  select :: "string \<Rightarrow> int option \<Rightarrow> pyval \<Rightarrow> pyval list"
  describe :: "pyval \<Rightarrow> string \<Rightarrow> string option \<Rightarrow> int option \<Rightarrow> string option"
  ast_parse :: "string \<Rightarrow> string \<Rightarrow> pyval"
  ast_repr :: "pyval \<Rightarrow> string"
  node_text :: "pyval \<Rightarrow> string \<Rightarrow> string"
  get_ast_path :: "state \<Rightarrow> string"
  str_format :: "string \<Rightarrow> (string \<times> string) list \<Rightarrow> string"
  re_search :: "string \<Rightarrow> string \<Rightarrow> bool"
  reporter :: reporter

type_synonym log = "msg list"

type_synonym outcome = "log \<times> (error + state)"

subsection \<open>Python's own operations\<close>

definition MSG_CHECK_FALLBACK :: string where
  "MSG_CHECK_FALLBACK = ''Your submission is incorrect. Try again!''"

text \<open>\<open>str(n)\<close> for an integer, as \<open>%s\<close> prints it.\<close>

fun str_nat :: "nat \<Rightarrow> string" where
  "str_nat n =
     (if n < 10 then [''0123456789'' ! n]
      else str_nat (n div 10) @ [''0123456789'' ! (n mod 10)])"

declare str_nat.simps [simp del]

definition str_int :: "int \<Rightarrow> string" where
  "str_int i = (if i < 0 then CHR ''-'' # str_nat (nat (- i)) else str_nat (nat i))"

text \<open>\<open>xs[i]\<close> on a list: a negative index counts from the end; \<open>None\<close> is IndexError.\<close>

definition list_index :: "'a list \<Rightarrow> int \<Rightarrow> 'a option" where
  "list_index xs i =
     (let n = int (length xs); j = (if i < 0 then n + i else i)
      in if 0 \<le> j \<and> j < n then Some (xs ! nat j) else None)"

text \<open>\<open>v[i]\<close> on a value.\<close>

fun py_getitem :: "pyval \<Rightarrow> int \<Rightarrow> error + pyval" where
  "py_getitem (PList xs) i =
     (case list_index xs i of
        None \<Rightarrow> Inl (IndexError ''list index out of range'')
      | Some v \<Rightarrow> Inr v)"
| "py_getitem (PStr s) i =
     (case list_index s i of
        None \<Rightarrow> Inl (IndexError ''string index out of range'')
      | Some c \<Rightarrow> Inr (PStr [c]))"
| "py_getitem v i = Inl (TypeError ''object is not subscriptable'')"

text \<open>\<open>getattr(v, name)\<close>.\<close>

fun py_getattr :: "pyval \<Rightarrow> string \<Rightarrow> error + pyval" where
  "py_getattr (PNode tag fs sp) name =
     (case map_of fs name of
        None \<Rightarrow> Inl (AttributeError name)
      | Some v \<Rightarrow> Inr v)"
| "py_getattr v name = Inl (AttributeError name)"

text \<open>\<open>v._get_text(code)\<close>: a method of tree nodes only.\<close>

fun get_text :: "env \<Rightarrow> pyval \<Rightarrow> string \<Rightarrow> error + string" where
  "get_text e (PNode tag fs sp) code = Inr (node_text e (PNode tag fs sp) code)"
| "get_text e v code = Inl (AttributeError ''_get_text'')"

text \<open>\<open>needle in hay\<close> on strings: contiguous occurrence.\<close>

definition str_in :: "string \<Rightarrow> string \<Rightarrow> bool" where
  "str_in needle hay = sublist needle hay"

text \<open>\<open>m or fallback\<close> for \<open>m\<close> a string or \<open>None\<close>.\<close>

fun msg_or :: "string option \<Rightarrow> string \<Rightarrow> string" where
  "msg_or None d = d"
| "msg_or (Some s) d = (if s = [] then d else s)"

subsection \<open>State.to_child and State.do_test\<close>

text \<open>
  Modelled from the spec: \<open>State.to_child\<close>, which the source calls and does not define.
  Every primitive "constructs exactly one fresh child State"; the State is "never mutated
  in place". The child is the parent with the given trees and history.
\<close>

definition to_child :: "state \<Rightarrow> pyval \<Rightarrow> pyval \<Rightarrow> action list \<Rightarrow> state" where
  "to_child st stu sol h = st\<lparr>student_ast := stu, solution_ast := sol, history := h\<rparr>"

text \<open>
  Modelled from the spec: \<open>State.do_test\<close>, the reporter, which the source calls and does
  not define. \<open>report_failure(message)\<close> receives the message and then either leaves by
  "an abrupt non-local exit" or returns to the caller; the checks discard what it returns.
\<close>

definition do_test :: "env \<Rightarrow> msg \<Rightarrow> log \<Rightarrow> log \<times> (error + unit)" where
  "do_test e m lg =
     (lg @ [m], case reporter e of Abrupt \<Rightarrow> Inl (TestFail m) | Terminal \<Rightarrow> Inr ())"

text \<open>\<open>state.do_test(m)\<close> followed by \<open>return state\<close>.\<close>

definition report_and_return :: "env \<Rightarrow> msg \<Rightarrow> state \<Rightarrow> log \<Rightarrow> outcome" where
  "report_and_return e m st lg =
     (case do_test e m lg of
        (lg', Inl err) \<Rightarrow> (lg', Inl err)
      | (lg', Inr u) \<Rightarrow> (lg', Inr st))"

subsection \<open>requires_ast\<close>

definition requires_ast :: "(state \<Rightarrow> log \<Rightarrow> outcome) \<Rightarrow> state \<Rightarrow> log \<Rightarrow> outcome" where
  "requires_ast f st lg =
     (if student_ast st = PNone \<or> solution_ast st = PNone
      then (lg, Inl (TypeError ''Trying to use ast, but it is None. Are you using a parser?''))
      else if student_ast st = PParseError \<or> solution_ast st = PParseError
      then (lg, Inr st)
      else f st lg)"

subsection \<open>check_node\<close>

definition check_node_body ::
  "env \<Rightarrow> string \<Rightarrow> int \<Rightarrow> string \<Rightarrow> int option \<Rightarrow> state \<Rightarrow> log \<Rightarrow> outcome" where
  "check_node_body e name index missing_msg priority st lg =
     (case list_index (select e name priority (solution_ast st)) index of
        None \<Rightarrow>
          (lg, Inl (IndexError
             (''Can't get '' @ name @ '' statement at index '' @ str_int index)))
      | Some sol_stmt \<Rightarrow>
          (case list_index (select e name priority (student_ast st)) index of
             None \<Rightarrow>
               (case do_test e
                       (Some (msg_or (describe e sol_stmt missing_msg None (Some index))
                                MSG_CHECK_FALLBACK)) lg of
                  (lg', Inl err) \<Rightarrow> (lg', Inl err)
                | (lg', Inr u) \<Rightarrow> (lg', Inl (UnboundLocalError ''stu_stmt'')))
           | Some stu_stmt \<Rightarrow>
               (lg, Inr (to_child st stu_stmt sol_stmt
                           (history st @ [CheckNodeAction name index stu_stmt])))))"

definition check_node ::
  "env \<Rightarrow> state \<Rightarrow> string \<Rightarrow> int \<Rightarrow> string \<Rightarrow> int option \<Rightarrow> log \<Rightarrow> outcome" where
  "check_node e st name index missing_msg priority lg =
     requires_ast (check_node_body e name index missing_msg priority) st lg"

subsection \<open>check_field\<close>

text \<open>The solution-side lookup: only an IndexError is caught, and raised again.\<close>

definition sol_lookup :: "pyval \<Rightarrow> string \<Rightarrow> int option \<Rightarrow> error + pyval" where
  "sol_lookup ast name index =
     (case py_getattr ast name of
        Inl err \<Rightarrow> Inl err
      | Inr attr \<Rightarrow>
          (case index of
             None \<Rightarrow> Inr attr
           | Some i \<Rightarrow>
               (case py_getitem attr i of
                  Inl (IndexError m) \<Rightarrow> Inl (IndexError (''Can't get '' @ name @ '' attribute''))
                | Inl err \<Rightarrow> Inl err
                | Inr v \<Rightarrow> Inr v)))"

text \<open>
  What the student-side \<open>try\<close> computes, \<open>getattr\<close> and then the indexing if an index is
  given; a bare \<open>except\<close> catches whatever is raised.
\<close>

definition stu_lookup :: "pyval \<Rightarrow> string \<Rightarrow> int option \<Rightarrow> error + pyval" where
  "stu_lookup ast name index =
     (case py_getattr ast name of
        Inl err \<Rightarrow> Inl err
      | Inr attr \<Rightarrow> (case index of None \<Rightarrow> Inr attr | Some i \<Rightarrow> py_getitem attr i))"

text \<open>
  Lines 116 to 124, reached with \<open>stu_attr\<close> bound: the test for a student value that is
  \<open>None\<close> alone, and the child State.
\<close>

definition check_field_rest ::
  "env \<Rightarrow> string \<Rightarrow> int option \<Rightarrow> string \<Rightarrow> state \<Rightarrow> pyval \<Rightarrow> pyval \<Rightarrow> log \<Rightarrow> outcome" where
  "check_field_rest e name index missing_msg st sol_attr stu_attr lg =
     (let child = to_child st stu_attr sol_attr
                    (history st @ [CheckFieldAction name index])
      in if stu_attr = PNone \<and> sol_attr \<noteq> PNone
         then (case do_test e
                      (describe e (student_ast st) missing_msg (Some name) index) lg of
                 (lg', Inl err) \<Rightarrow> (lg', Inl err)
               | (lg', Inr u) \<Rightarrow> (lg', Inr child))
         else (lg, Inr child))"

text \<open>
  In the student-side \<open>try\<close> the variable \<open>stu_attr\<close> is bound by \<open>getattr\<close> and bound again
  by the indexing. When \<open>getattr\<close> raises, it is unbound after the \<open>except\<close> block; when only
  the indexing raises, it still holds the value of the field.
\<close>

definition check_field_body ::
  "env \<Rightarrow> string \<Rightarrow> int option \<Rightarrow> string \<Rightarrow> state \<Rightarrow> log \<Rightarrow> outcome" where
  "check_field_body e name index missing_msg st lg =
     (case sol_lookup (solution_ast st) name index of
        Inl err \<Rightarrow> (lg, Inl err)
      | Inr sol_attr \<Rightarrow>
          (case py_getattr (student_ast st) name of
             Inl caught \<Rightarrow>
               (case do_test e
                       (Some (msg_or (describe e (student_ast st) missing_msg (Some name) index)
                                MSG_CHECK_FALLBACK)) lg of
                  (lg', Inl err) \<Rightarrow> (lg', Inl err)
                | (lg', Inr u) \<Rightarrow> (lg', Inl (UnboundLocalError ''stu_attr'')))
           | Inr attr \<Rightarrow>
               (case index of
                  None \<Rightarrow> check_field_rest e name index missing_msg st sol_attr attr lg
                | Some i \<Rightarrow>
                    (case py_getitem attr i of
                       Inl caught \<Rightarrow>
                         (case do_test e
                                 (Some (msg_or
                                    (describe e (student_ast st) missing_msg (Some name) index)
                                    MSG_CHECK_FALLBACK)) lg of
                            (lg', Inl err) \<Rightarrow> (lg', Inl err)
                          | (lg', Inr u) \<Rightarrow>
                              check_field_rest e name index missing_msg st sol_attr attr lg')
                     | Inr stu_attr \<Rightarrow>
                         check_field_rest e name index missing_msg st sol_attr stu_attr lg))))"

definition check_field ::
  "env \<Rightarrow> state \<Rightarrow> string \<Rightarrow> int option \<Rightarrow> string \<Rightarrow> log \<Rightarrow> outcome" where
  "check_field e st name index missing_msg lg =
     requires_ast (check_field_body e name index missing_msg) st lg"

subsection \<open>has_code\<close>

definition has_code :: "env \<Rightarrow> state \<Rightarrow> string \<Rightarrow> string \<Rightarrow> bool \<Rightarrow> log \<Rightarrow> outcome" where
  "has_code e st text msg fixed lg =
     (case (if student_ast st = PParseError then Inr (student_code st)
            else get_text e (student_ast st) (student_code st)) of
        Inl err \<Rightarrow> (lg, Inl err)
      | Inr stu_text \<Rightarrow>
          (let m = str_format e msg [(''ast_path'', get_ast_path e st), (''text'', text)];
               res = (if fixed then str_in text stu_text else re_search e text stu_text)
           in if \<not> res then report_and_return e (Some m) st lg else (lg, Inr st)))"

subsection \<open>has_equal_ast\<close>

definition get_str :: "env \<Rightarrow> pyval \<Rightarrow> string \<Rightarrow> string option \<Rightarrow> string option" where
  "get_str e ast code sql =
     (if sql \<noteq> None \<and> sql \<noteq> Some [] then sql
      else (case ast of
              PStr s \<Rightarrow> Some s
            | _ \<Rightarrow> (case get_text e ast code of Inl err \<Rightarrow> None | Inr t \<Rightarrow> Some t)))"

definition extra_text :: "string option \<Rightarrow> string" where
  "extra_text sol_str =
     (case sol_str of
        None \<Rightarrow> []
      | Some s \<Rightarrow>
          (if s = [] then []
           else '' The checker expected to find `'' @ s @ ''` in there.''))"

definition has_equal_ast_body ::
  "env \<Rightarrow> string \<Rightarrow> string option \<Rightarrow> string \<Rightarrow> bool \<Rightarrow> state \<Rightarrow> log \<Rightarrow> outcome" where
  "has_equal_ast_body e msg sql start exact st lg =
     (let sol_ast = (case sql of None \<Rightarrow> solution_ast st | Some s \<Rightarrow> ast_parse e s start);
          stu_rep = ast_repr e (student_ast st);
          sol_rep = ast_repr e sol_ast;
          sol_str = get_str e (solution_ast st) (solution_code st) sql;
          m = str_format e msg
                [(''ast_path'', get_ast_path e st), (''extra'', extra_text sol_str)]
      in if exact \<and> sol_rep \<noteq> stu_rep
         then report_and_return e (Some (msg_or (Some m) MSG_CHECK_FALLBACK)) st lg
         else if \<not> exact \<and> \<not> str_in sol_rep stu_rep
         then report_and_return e (Some (msg_or (Some m) MSG_CHECK_FALLBACK)) st lg
         else (lg, Inr st))"

definition has_equal_ast ::
  "env \<Rightarrow> state \<Rightarrow> string \<Rightarrow> string option \<Rightarrow> string \<Rightarrow> bool \<Rightarrow> log \<Rightarrow> outcome" where
  "has_equal_ast e st msg sql start exact lg =
     requires_ast (has_equal_ast_body e msg sql start exact) st lg"

subsection \<open>has_parsed_ast\<close>

definition has_parsed_ast :: "env \<Rightarrow> state \<Rightarrow> log \<Rightarrow> outcome" where
  "has_parsed_ast e st lg =
     (if student_ast st = PParseError \<or> solution_ast st = PParseError
      then report_and_return e (Some ''AST did not parse'') st lg
      else (lg, Inr st))"

subsection \<open>Chains of narrowing primitives\<close>

text \<open>Both trees are there and parsed: what \<open>requires_ast\<close> lets through.\<close>

definition trees_parsed :: "state \<Rightarrow> bool" where
  "trees_parsed st =
     (student_ast st \<noteq> PNone \<and> solution_ast st \<noteq> PNone \<and>
      student_ast st \<noteq> PParseError \<and> solution_ast st \<noteq> PParseError)"

text \<open>
  A call of one of the two narrowing primitives with its arguments:
  \<open>check_node(name, index, missing_msg, priority)\<close> or
  \<open>check_field(name, index, missing_msg)\<close>.
\<close>

datatype step =
    CheckNode string int string "int option"
  | CheckField string "int option" string

fun apply_step :: "env \<Rightarrow> state \<Rightarrow> step \<Rightarrow> log \<Rightarrow> outcome" where
  "apply_step e st (CheckNode name index missing_msg priority) lg =
     check_node e st name index missing_msg priority lg"
| "apply_step e st (CheckField name index missing_msg) lg =
     check_field e st name index missing_msg lg"

text \<open>
  A chain in which every primitive narrows: it runs on parsed trees (it is not skipped by
  \<open>requires_ast\<close>), reports nothing and returns a State, on which the next one runs.
\<close>

fun narrow_chain :: "env \<Rightarrow> state \<Rightarrow> step list \<Rightarrow> log \<Rightarrow> (log \<times> state) option" where
  "narrow_chain e st [] lg = Some (lg, st)"
| "narrow_chain e st (p # ps) lg =
     (if trees_parsed st
      then (case apply_step e st p lg of
              (lg', Inl err) \<Rightarrow> None
            | (lg', Inr st') \<Rightarrow> if lg' = lg then narrow_chain e st' ps lg else None)
      else None)"

fun default_priority :: "step \<Rightarrow> bool" where
  "default_priority (CheckNode name index missing_msg priority) = (priority = None)"
| "default_priority (CheckField name index missing_msg) = True"

subsection \<open>Replaying a history\<close>

text \<open>
  The specification speaks of "replaying the recorded (type/field, index) pairs against the
  original root trees". The source has no such function; \<open>replay\<close> follows these words:
  an action of \<open>check_node\<close> selects the nodes of the recorded name (an Action records no
  priority, so with the default one) and takes the recorded index, an action of
  \<open>check_field\<close> reads the recorded field and takes the recorded index, if any.
\<close>

fun replay_action :: "env \<Rightarrow> pyval \<Rightarrow> action \<Rightarrow> pyval option" where
  "replay_action e t (CheckNodeAction name index node) =
     list_index (select e name None t) index"
| "replay_action e t (CheckFieldAction name index) =
     (case stu_lookup t name index of Inl err \<Rightarrow> None | Inr v \<Rightarrow> Some v)"

fun replay :: "env \<Rightarrow> pyval \<Rightarrow> action list \<Rightarrow> pyval option" where
  "replay e t [] = Some t"
| "replay e t (a # as) =
     (case replay_action e t a of None \<Rightarrow> None | Some t' \<Rightarrow> replay e t' as)"

subsection \<open>A tree inside a larger tree\<close>

text \<open>
  \<open>subtree t u\<close>: the tree \<open>t\<close> occurs unchanged in \<open>u\<close>, as \<open>u\<close> itself, or below a
  field of a node or an item of a list that is not \<open>None\<close>.
\<close>

inductive subtree :: "pyval \<Rightarrow> pyval \<Rightarrow> bool" where
  subtree_refl: "subtree t t"
| subtree_field:
    "(k, v) \<in> set fs \<Longrightarrow> v \<noteq> PNone \<Longrightarrow> subtree t v \<Longrightarrow> subtree t (PNode tag fs sp)"
| subtree_item:
    "v \<in> set xs \<Longrightarrow> v \<noteq> PNone \<Longrightarrow> subtree t v \<Longrightarrow> subtree t (PList xs)"

subsection \<open>An example dispatcher and example trees\<close>

text \<open>
  A small dispatcher for the concrete instances below. Without a priority it selects among
  the values directly under the tree (the items of a list-valued field count as such); with
  a priority it also looks one level further down.
\<close>

fun has_tag :: "string \<Rightarrow> pyval \<Rightarrow> bool" where
  "has_tag name (PNode tag fs sp) = (tag = name)"
| "has_tag name v = False"

fun flat_value :: "pyval \<Rightarrow> pyval list" where
  "flat_value (PList xs) = xs"
| "flat_value v = [v]"

fun child_values :: "pyval \<Rightarrow> pyval list" where
  "child_values (PNode tag fs sp) = concat (map (\<lambda>kv. flat_value (snd kv)) fs)"
| "child_values (PList xs) = xs"
| "child_values v = []"

definition ex_select :: "string \<Rightarrow> int option \<Rightarrow> pyval \<Rightarrow> pyval list" where
  "ex_select name priority t =
     (case priority of
        None \<Rightarrow> filter (has_tag name) (child_values t)
      | Some p \<Rightarrow>
          filter (has_tag name) (child_values t @ concat (map child_values (child_values t))))"

definition ex_describe ::
  "pyval \<Rightarrow> string \<Rightarrow> string option \<Rightarrow> int option \<Rightarrow> string option" where
  "ex_describe node msg field index =
     (case node of PNode tag fs sp \<Rightarrow> Some (msg @ '' ['' @ tag @ '']'') | _ \<Rightarrow> None)"

primrec ex_repr :: "pyval \<Rightarrow> string" where
  "ex_repr PNone = ''None''"
| "ex_repr PParseError = ''ParseError()''"
| "ex_repr (PStr s) = CHR 0x27 # s @ [CHR 0x27]"
| "ex_repr (PList xs) = ''['' @ concat (map (\<lambda>x. ex_repr x @ '', '') xs) @ '']''"
| "ex_repr (PNode tag fs sp) =
     tag @ ''('' @
     concat (map (\<lambda>kr. fst kr @ ''='' @ snd kr @ '', '') (map (map_prod id ex_repr) fs)) @
     '')''"

definition ex_node_text :: "pyval \<Rightarrow> string \<Rightarrow> string" where
  "ex_node_text v code =
     (case v of
        PNode tag fs sp \<Rightarrow> take (snd sp + 1 - fst sp) (drop (fst sp) code)
      | _ \<Rightarrow> [])"

definition ex_ident :: "string \<Rightarrow> nat \<Rightarrow> pyval" where
  "ex_ident x pos = PNode ''Identifier'' [(''fields'', PList [PStr x])] (pos, pos)"

text \<open>The tree of \<open>SELECT a FROM t\<close> for a table \<open>t\<close> of one letter.\<close>

definition ex_stmt :: "string \<Rightarrow> pyval" where
  "ex_stmt tbl =
     PNode ''SelectStmt''
       [(''target_list'', PList [ex_ident ''a'' 7]),
        (''from_clause'', PList [ex_ident tbl 14]),
        (''where_clause'', PNone)] (0, 14)"

definition ex_script :: "string \<Rightarrow> pyval" where
  "ex_script tbl = PNode ''Script'' [(''body'', PList [ex_stmt tbl])] (0, 14)"

text \<open>A statement that selects from a sub-query.\<close>

definition ex_nested :: pyval where
  "ex_nested =
     PNode ''Script''
       [(''body'', PList [PNode ''SelectStmt'' [(''from_clause'', PList [ex_stmt ''b''])] (0, 31)])]
       (0, 31)"

definition ex_parse :: "string \<Rightarrow> string \<Rightarrow> pyval" where
  "ex_parse code start =
     (if code = ''b'' \<and> start = ''expression'' then ex_ident ''b'' 0 else PParseError)"

definition ex_env :: "reporter \<Rightarrow> env" where
  "ex_env r =
     \<lparr>select = ex_select, describe = ex_describe, ast_parse = ex_parse, ast_repr = ex_repr,
      node_text = ex_node_text, get_ast_path = (\<lambda>st. ''code''),
      str_format = (\<lambda>template kwargs. template), re_search = str_in, reporter = r\<rparr>"

text \<open>The defaults of the message parameters.\<close>

definition node_missing_msg :: string where
  "node_missing_msg = ''Could not find the {index}{node_name}.''"

definition field_missing_msg :: string where
  "field_missing_msg = ''Could not find the {index}{field_name} of the {node_name}.''"

definition has_code_msg :: string where
  "has_code_msg = ''Check the {ast_path}. The checker expected to find {text}.''"

definition equal_ast_msg :: string where
  "equal_ast_msg = ''Check the {ast_path}.{extra}''"

definition ex_state :: "pyval \<Rightarrow> pyval \<Rightarrow> state" where
  "ex_state stu sol =
     \<lparr>student_ast = stu, solution_ast = sol, student_code = ''SELECT a FROM c'',
      solution_code = ''SELECT a FROM b'', history = []\<rparr>"

section \<open>Properties\<close>

subsection \<open>Auxiliary facts\<close>

lemma requires_ast_parsed: "trees_parsed st \<Longrightarrow> requires_ast f st lg = f st lg"
  by (simp add: requires_ast_def trees_parsed_def)

lemma str_in_trans: "str_in a b \<Longrightarrow> str_in b c \<Longrightarrow> str_in a c"
  unfolding str_in_def by (rule sublist_order.order_trans)

lemma subtree_repr:
  assumes fields: "\<And>tag fs sp k v. (k, v) \<in> set fs \<Longrightarrow> v \<noteq> PNone \<Longrightarrow>
                     str_in (ast_repr e v) (ast_repr e (PNode tag fs sp))"
      and items: "\<And>xs v. v \<in> set xs \<Longrightarrow> v \<noteq> PNone \<Longrightarrow>
                     str_in (ast_repr e v) (ast_repr e (PList xs))"
      and sub: "subtree t u"
  shows "str_in (ast_repr e t) (ast_repr e u)"
  using sub
proof (induction rule: subtree.induct)
  case (subtree_refl t)
  show ?case by (simp add: str_in_def)
next
  case (subtree_field k v fs t tag sp)
  from subtree_field.IH fields [OF subtree_field.hyps(1,2)] show ?case
    by (rule str_in_trans)
next
  case (subtree_item v xs t)
  from subtree_item.IH items [OF subtree_item.hyps(1,2)] show ?case
    by (rule str_in_trans)
qed

lemma subtree_parsed:
  "subtree t u \<Longrightarrow> t \<noteq> PNone \<Longrightarrow> t \<noteq> PParseError \<Longrightarrow> u \<noteq> PNone \<and> u \<noteq> PParseError"
  by (induction rule: subtree.induct) auto

lemma has_equal_ast_success:
  assumes "trees_parsed st"
  shows "has_equal_ast e st msg sql start False lg = (lg, Inr st) \<longleftrightarrow>
         str_in (ast_repr e (case sql of None \<Rightarrow> solution_ast st | Some s \<Rightarrow> ast_parse e s start))
                (ast_repr e (student_ast st))"
  using assms
  by (auto simp: has_equal_ast_def requires_ast_parsed has_equal_ast_body_def Let_def
        report_and_return_def do_test_def split: reporter.splits)

lemma sublist_concat_map: "x \<in> set xs \<Longrightarrow> sublist (f x) (concat (map f xs))"
  by (induction xs) (auto simp: sublist_append)

lemma sublist_mid: "sublist x m \<Longrightarrow> sublist x (a @ m @ b)"
  by (auto simp: sublist_append)

lemma ex_repr_item: "v \<in> set xs \<Longrightarrow> str_in (ex_repr v) (ex_repr (PList xs))"
proof -
  assume "v \<in> set xs"
  then have "sublist (ex_repr v @ '', '') (concat (map (\<lambda>x. ex_repr x @ '', '') xs))"
    by (rule sublist_concat_map)
  then have "sublist (ex_repr v) (concat (map (\<lambda>x. ex_repr x @ '', '') xs))"
    by (meson sublist_append_rightI sublist_order.order_trans)
  then show ?thesis
    unfolding str_in_def ex_repr.simps by (rule sublist_mid)
qed

lemma ex_repr_field: "(k, v) \<in> set fs \<Longrightarrow> str_in (ex_repr v) (ex_repr (PNode tag fs sp))"
proof -
  let ?g = "\<lambda>kv. fst kv @ ''='' @ ex_repr (snd kv) @ '', ''"
  assume "(k, v) \<in> set fs"
  then have "sublist (?g (k, v)) (concat (map ?g fs))"
    by (rule sublist_concat_map)
  moreover have "sublist (ex_repr v) ((k @ ''='') @ ex_repr v @ '', '')"
    by (rule sublist_appendI)
  then have "sublist (ex_repr v) (?g (k, v))"
    by simp
  ultimately have "sublist (ex_repr v) (concat (map ?g fs))"
    by (meson sublist_order.order_trans)
  then have "sublist (ex_repr v) ((tag @ ''('') @ concat (map ?g fs) @ '')'')"
    by (rule sublist_mid)
  then show ?thesis
    unfolding str_in_def by (simp add: comp_def)
qed

lemma list_index_nonneg:
  "0 \<le> i \<Longrightarrow> list_index xs i = (if i < int (length xs) then Some (xs ! nat i) else None)"
  by (simp add: list_index_def Let_def)

lemma py_getattr_Inr: "py_getattr t name = Inr v \<Longrightarrow> \<exists>tag fs sp. t = PNode tag fs sp"
  by (cases t) simp_all

lemma sol_lookup_node: "sol_lookup t name index = Inr v \<Longrightarrow> \<exists>tag fs sp. t = PNode tag fs sp"
  by (auto simp: sol_lookup_def split: sum.splits dest: py_getattr_Inr)

lemma stu_lookup_node: "stu_lookup t name index = Inr v \<Longrightarrow> \<exists>tag fs sp. t = PNode tag fs sp"
  by (auto simp: stu_lookup_def split: sum.splits dest: py_getattr_Inr)

lemma lookups_parsed:
  "sol_lookup (solution_ast st) name index = Inr a \<Longrightarrow>
   stu_lookup (student_ast st) name index = Inr b \<Longrightarrow> trees_parsed st"
  by (auto simp: trees_parsed_def dest!: sol_lookup_node stu_lookup_node)

lemma has_code_on_text:
  assumes "student_ast st = PParseError \<or> (\<exists>tag fs sp. student_ast st = PNode tag fs sp)"
  shows "has_code e st pat msg fixed lg =
     (let stu_text = (if student_ast st = PParseError then student_code st
                      else node_text e (student_ast st) (student_code st))
      in if (if fixed then str_in pat stu_text else re_search e pat stu_text)
         then (lg, Inr st)
         else report_and_return e
                (Some (str_format e msg [(''ast_path'', get_ast_path e st), (''text'', pat)]))
                st lg)"
  using assms by (auto simp: has_code_def Let_def)

text \<open>
  Where the student focus is a ParseError or a tree node, \<open>has_code\<close> searches the whole
  student code or the text of the node, and reports if and only if the pattern is not found.
\<close>

lemma has_code_searches_focus_text:
  assumes "student_ast st = PParseError \<or> (\<exists>tag fs sp. student_ast st = PNode tag fs sp)"
  shows
    "let stu_text = (if student_ast st = PParseError then student_code st
                     else node_text e (student_ast st) (student_code st));
         found = (if fixed then str_in pat stu_text else re_search e pat stu_text);
         m = str_format e msg [(''ast_path'', get_ast_path e st), (''text'', pat)];
         r = has_code e st pat msg fixed lg
     in (fst r = lg @ [Some m] \<longleftrightarrow> \<not> found) \<and>
        (fst r = lg \<longleftrightarrow> found) \<and>
        (found \<longrightarrow> r = (lg, Inr st)) \<and>
        (\<not> found \<and> reporter e = Abrupt \<longrightarrow> snd r = Inl (TestFail (Some m)))"
  unfolding has_code_on_text [OF assms]
  by (simp add: Let_def report_and_return_def do_test_def split: reporter.splits)

text \<open>
  With a reporter that returns, \<open>check_field\<close> goes on after a failed indexing with the value
  of the field: it returns a child on the list that has no such item, and reports twice when
  the field is \<open>None\<close>.
\<close>

lemma check_field_after_failed_indexing:
  "check_field (ex_env Terminal)
     (ex_state (PNode ''SelectStmt'' [(''from_clause'', PList [])] (0, 7)) (ex_stmt ''b''))
     ''from_clause'' (Some 0) field_missing_msg [] =
     ([Some ''Could not find the {index}{field_name} of the {node_name}. [SelectStmt]''],
      Inr ((ex_state (PList []) (ex_ident ''b'' 14))
             \<lparr>history := [CheckFieldAction ''from_clause'' (Some 0)]\<rparr>)) \<and>
   fst (check_field (ex_env Terminal)
     (ex_state (PNode ''SelectStmt'' [(''from_clause'', PNone)] (0, 7)) (ex_stmt ''b''))
     ''from_clause'' (Some 0) field_missing_msg []) =
     [Some ''Could not find the {index}{field_name} of the {node_name}. [SelectStmt]'',
      Some ''Could not find the {index}{field_name} of the {node_name}. [SelectStmt]'']"
  by (simp add: check_field_def requires_ast_def check_field_body_def check_field_rest_def
        do_test_def to_child_def sol_lookup_def list_index_def ex_state_def ex_env_def
        ex_stmt_def ex_ident_def ex_describe_def field_missing_msg_def)

lemma sol_lookup_Inr: "sol_lookup t n i = Inr v \<Longrightarrow> stu_lookup t n i = Inr v"
  by (auto simp: sol_lookup_def stu_lookup_def split: sum.splits option.splits error.splits)

lemma check_node_narrows:
  assumes "trees_parsed st"
      and "check_node e st name index missing_msg priority lg = (lg', Inr c)"
  shows "history c = history st @ [CheckNodeAction name index (student_ast c)] \<and>
         list_index (select e name priority (student_ast st)) index = Some (student_ast c) \<and>
         list_index (select e name priority (solution_ast st)) index = Some (solution_ast c)"
  using assms
  by (auto simp: check_node_def requires_ast_parsed check_node_body_def to_child_def do_test_def
        split: option.splits reporter.splits)

lemma stu_lookup_unfold:
  "stu_lookup t name index =
     (case py_getattr t name of
        Inl err \<Rightarrow> Inl err
      | Inr attr \<Rightarrow> (case index of None \<Rightarrow> Inr attr | Some i \<Rightarrow> py_getitem attr i))"
  by (simp add: stu_lookup_def)

lemma check_field_rest_history:
  "check_field_rest e name index missing_msg st sol_attr stu_attr lg = (lg', Inr c) \<Longrightarrow>
   history c = history st @ [CheckFieldAction name index]"
  by (auto simp: check_field_rest_def Let_def to_child_def do_test_def
        split: if_splits reporter.splits)

lemma check_field_rest_quiet:
  "check_field_rest e name index missing_msg st sol_attr stu_attr lg = (lg, Inr c) \<Longrightarrow>
   student_ast c = stu_attr \<and> solution_ast c = sol_attr"
  by (auto simp: check_field_rest_def Let_def to_child_def do_test_def
        split: if_splits reporter.splits)

lemma check_field_rest_log:
  "check_field_rest e name index missing_msg st sol_attr stu_attr lg = (lg', r) \<Longrightarrow>
   lg' = lg \<or> (\<exists>m. lg' = lg @ [m])"
  by (auto simp: check_field_rest_def Let_def do_test_def split: if_splits reporter.splits)

lemma check_field_history:
  assumes "trees_parsed st"
      and "check_field e st name index missing_msg lg = (lg', Inr c)"
  shows "history c = history st @ [CheckFieldAction name index]"
  using assms
  by (auto simp: check_field_def requires_ast_parsed check_field_body_def do_test_def
        split: sum.splits option.splits reporter.splits dest: check_field_rest_history)

lemma check_field_narrows:
  assumes "trees_parsed st"
      and "check_field e st name index missing_msg lg = (lg, Inr c)"
  shows "stu_lookup (student_ast st) name index = Inr (student_ast c) \<and>
         stu_lookup (solution_ast st) name index = Inr (solution_ast c)"
proof -
  from assms have body: "check_field_body e name index missing_msg st lg = (lg, Inr c)"
    by (simp add: check_field_def requires_ast_parsed)
  then obtain sol_attr where sol: "sol_lookup (solution_ast st) name index = Inr sol_attr"
    by (auto simp: check_field_body_def split: sum.splits)
  from body sol obtain attr where attr: "py_getattr (student_ast st) name = Inr attr"
    by (auto simp: check_field_body_def do_test_def split: sum.splits reporter.splits)
  show ?thesis
  proof (cases index)
    case None
    with body sol attr
    have "check_field_rest e name index missing_msg st sol_attr attr lg = (lg, Inr c)"
      by (simp add: check_field_body_def)
    from check_field_rest_quiet [OF this] sol attr None sol_lookup_Inr [OF sol]
    show ?thesis by (simp add: stu_lookup_unfold)
  next
    case (Some i)
    show ?thesis
    proof (cases "py_getitem attr i")
      case (Inl caught)
      with body sol attr Some have False
        by (auto simp: check_field_body_def do_test_def split: reporter.splits
              dest!: check_field_rest_log)
      then show ?thesis ..
    next
      case (Inr stu_attr)
      with body sol attr Some
      have "check_field_rest e name index missing_msg st sol_attr stu_attr lg = (lg, Inr c)"
        by (simp add: check_field_body_def)
      from check_field_rest_quiet [OF this] sol attr Some Inr sol_lookup_Inr [OF sol]
      show ?thesis by (simp add: stu_lookup_unfold)
    qed
  qed
qed

lemma apply_step_narrows:
  assumes "trees_parsed st" and "apply_step e st p lg = (lg', Inr c)"
  shows "\<exists>a. history c = history st @ [a] \<and>
           (lg' = lg \<and> default_priority p \<longrightarrow>
              replay_action e (student_ast st) a = Some (student_ast c) \<and>
              replay_action e (solution_ast st) a = Some (solution_ast c))"
proof (cases p)
  case (CheckNode name index missing_msg priority)
  with assms check_node_narrows [of st e name index missing_msg priority lg lg' c]
  show ?thesis by auto
next
  case (CheckField name index missing_msg)
  with assms check_field_history [of st e name index missing_msg lg lg' c]
    check_field_narrows [of st e name index missing_msg lg c]
  show ?thesis by auto
qed

lemma narrow_chain_log: "narrow_chain e st ps lg = Some (lg', s) \<Longrightarrow> lg' = lg"
  by (induction ps arbitrary: st) (auto split: if_splits prod.splits sum.splits)

lemma narrow_chain_history:
  "narrow_chain e st ps lg = Some (lg', s) \<Longrightarrow>
   \<exists>hs. history s = history st @ hs \<and> length hs = length ps \<and>
     (list_all default_priority ps \<longrightarrow>
        replay e (student_ast st) hs = Some (student_ast s) \<and>
        replay e (solution_ast st) hs = Some (solution_ast s))"
proof (induction ps arbitrary: st)
  case Nil
  then show ?case by simp
next
  case (Cons p ps)
  from Cons.prems have parsed: "trees_parsed st"
    by (simp split: if_splits)
  from Cons.prems parsed obtain c where
    step: "apply_step e st p lg = (lg, Inr c)" and rest: "narrow_chain e c ps lg = Some (lg', s)"
    by (auto split: prod.splits sum.splits if_splits)
  from apply_step_narrows [OF parsed step] obtain a where
    a: "history c = history st @ [a]"
       "default_priority p \<longrightarrow>
          replay_action e (student_ast st) a = Some (student_ast c) \<and>
          replay_action e (solution_ast st) a = Some (solution_ast c)"
    by blast
  from Cons.IH [OF rest] obtain hs where
    hs: "history s = history c @ hs" "length hs = length ps"
        "list_all default_priority ps \<longrightarrow>
           replay e (student_ast c) hs = Some (student_ast s) \<and>
           replay e (solution_ast c) hs = Some (solution_ast s)"
    by blast
  show ?case
  proof (intro exI conjI impI)
    show "history s = history st @ (a # hs)" using a(1) hs(1) by simp
    show "length (a # hs) = length (p # ps)" using hs(2) by simp
    assume d: "list_all default_priority (p # ps)"
    with a(2) hs(3) show "replay e (student_ast st) (a # hs) = Some (student_ast s)"
      by simp
    from d a(2) hs(3) show "replay e (solution_ast st) (a # hs) = Some (solution_ast s)"
      by simp
  qed
qed

subsection \<open>The guard\<close>

text \<open>
  C1. \<open>requires_ast\<close>, applied to a primitive that reads the trees (\<open>check_node\<close>,
  \<open>check_field\<close>, \<open>has_equal_ast\<close>), is a case split in three. If the student or the solution
  tree is \<open>None\<close>, the TypeError is raised and the primitive is not run: the outcome does not
  depend on the wrapped function and nothing is reported. Otherwise, if one of the trees is a
  ParseError, the input State is returned as it is and nothing is reported. Otherwise the
  outcome is that of the wrapped primitive.
\<close>

theorem requires_ast_three_way:
  "(student_ast st = PNone \<or> solution_ast st = PNone \<longrightarrow>
      requires_ast f st lg =
        (lg, Inl (TypeError ''Trying to use ast, but it is None. Are you using a parser?'')) \<and>
      check_node e st name index missing_msg priority lg =
        (lg, Inl (TypeError ''Trying to use ast, but it is None. Are you using a parser?'')) \<and>
      check_field e st name field_index missing_msg lg =
        (lg, Inl (TypeError ''Trying to use ast, but it is None. Are you using a parser?'')) \<and>
      has_equal_ast e st msg sql start exact lg =
        (lg, Inl (TypeError ''Trying to use ast, but it is None. Are you using a parser?''))) \<and>
   (student_ast st \<noteq> PNone \<and> solution_ast st \<noteq> PNone \<and>
    (student_ast st = PParseError \<or> solution_ast st = PParseError) \<longrightarrow>
      requires_ast f st lg = (lg, Inr st) \<and>
      check_node e st name index missing_msg priority lg = (lg, Inr st) \<and>
      check_field e st name field_index missing_msg lg = (lg, Inr st) \<and>
      has_equal_ast e st msg sql start exact lg = (lg, Inr st)) \<and>
   (student_ast st \<noteq> PNone \<and> solution_ast st \<noteq> PNone \<and>
    student_ast st \<noteq> PParseError \<and> solution_ast st \<noteq> PParseError \<longrightarrow>
      requires_ast f st lg = f st lg \<and>
      check_node e st name index missing_msg priority lg =
        check_node_body e name index missing_msg priority st lg \<and>
      check_field e st name field_index missing_msg lg =
        check_field_body e name field_index missing_msg st lg \<and>
      has_equal_ast e st msg sql start exact lg =
        has_equal_ast_body e msg sql start exact st lg)"
  unfolding check_node_def check_field_def has_equal_ast_def
  by (simp add: requires_ast_def)

theorem requires_ast_three_way_witness:
  "student_ast (ex_state PNone (ex_script ''b'')) = PNone \<and>
   check_node (ex_env Abrupt) (ex_state PNone (ex_script ''b'')) ''SelectStmt'' 0
     node_missing_msg None [] =
     ([], Inl (TypeError ''Trying to use ast, but it is None. Are you using a parser?'')) \<and>
   student_ast (ex_state PParseError (ex_script ''b'')) = PParseError \<and>
   check_node (ex_env Abrupt) (ex_state PParseError (ex_script ''b'')) ''SelectStmt'' 0
     node_missing_msg None [] = ([], Inr (ex_state PParseError (ex_script ''b''))) \<and>
   trees_parsed (ex_state (ex_script ''c'') (ex_script ''b'')) \<and>
   check_node (ex_env Abrupt) (ex_state (ex_script ''c'') (ex_script ''b'')) ''SelectStmt'' 0
     node_missing_msg None [] =
     check_node_body (ex_env Abrupt) ''SelectStmt'' 0 node_missing_msg None
       (ex_state (ex_script ''c'') (ex_script ''b'')) []"
  using
    requires_ast_three_way [of "ex_state PNone (ex_script ''b'')" _ "[]" "ex_env Abrupt"
      "''SelectStmt''" 0 node_missing_msg None]
    requires_ast_three_way [of "ex_state PParseError (ex_script ''b'')" _ "[]" "ex_env Abrupt"
      "''SelectStmt''" 0 node_missing_msg None]
    requires_ast_three_way [of "ex_state (ex_script ''c'') (ex_script ''b'')" _ "[]"
      "ex_env Abrupt" "''SelectStmt''" 0 node_missing_msg None]
  by (simp add: ex_state_def ex_script_def trees_parsed_def)


subsection \<open>has_parsed_ast\<close>

text \<open>
  C5. \<open>has_parsed_ast\<close> has no guard: a tree that is \<open>None\<close> raises nothing. It hands the
  fixed message \<open>AST did not parse\<close> to the reporter if and only if the student tree or the
  solution tree is a ParseError; otherwise it returns the input State as it is and reports
  nothing.
\<close>

theorem has_parsed_ast_reports_iff:
  "fst (has_parsed_ast e st lg) =
     (if student_ast st = PParseError \<or> solution_ast st = PParseError
      then lg @ [Some ''AST did not parse''] else lg) \<and>
   (student_ast st = PParseError \<or> solution_ast st = PParseError \<longrightarrow>
      snd (has_parsed_ast e st lg) =
        (case reporter e of
           Abrupt \<Rightarrow> Inl (TestFail (Some ''AST did not parse''))
         | Terminal \<Rightarrow> Inr st)) \<and>
   (student_ast st \<noteq> PParseError \<and> solution_ast st \<noteq> PParseError \<longrightarrow>
      has_parsed_ast e st lg = (lg, Inr st))"
  by (simp add: has_parsed_ast_def report_and_return_def do_test_def split: reporter.splits)


theorem has_parsed_ast_reports_iff_witness:
  "has_parsed_ast (ex_env Abrupt) (ex_state PParseError (ex_script ''b'')) [] =
     ([Some ''AST did not parse''], Inl (TestFail (Some ''AST did not parse''))) \<and>
   has_parsed_ast (ex_env Abrupt) (ex_state (ex_script ''c'') PNone) [] =
     ([], Inr (ex_state (ex_script ''c'') PNone))"
  using
    has_parsed_ast_reports_iff [of "ex_env Abrupt" "ex_state PParseError (ex_script ''b'')" "[]"]
    has_parsed_ast_reports_iff [of "ex_env Abrupt" "ex_state (ex_script ''c'') PNone" "[]"]
  by (simp add: ex_state_def ex_script_def ex_env_def prod_eq_iff)

subsection \<open>has_equal_ast\<close>

text \<open>
  C3. On a State whose two trees are there and parsed, \<open>has_equal_ast\<close> compares \<open>repr\<close> of
  the student tree with \<open>repr\<close> of the target, which is the solution tree of the State when
  no snippet is given and the parse of the snippet otherwise. With \<open>exact\<close> it hands a message
  to the reporter if and only if the two representations differ; without \<open>exact\<close>, if and only
  if the representation of the target does not occur inside that of the student tree. When
  nothing is reported the input State is returned as it is; when the reporter leaves abruptly,
  the outcome of a report is the student-facing failure.
\<close>

theorem has_equal_ast_compares_repr:
  assumes "trees_parsed st"
  shows
    "let target = (case sql of None \<Rightarrow> solution_ast st | Some s \<Rightarrow> ast_parse e s start);
         stu_rep = ast_repr e (student_ast st);
         sol_rep = ast_repr e target;
         differ = (if exact then sol_rep \<noteq> stu_rep else \<not> str_in sol_rep stu_rep);
         m = msg_or
               (Some (str_format e msg
                  [(''ast_path'', get_ast_path e st),
                   (''extra'', extra_text (get_str e (solution_ast st) (solution_code st) sql))]))
               MSG_CHECK_FALLBACK;
         r = has_equal_ast e st msg sql start exact lg
     in (fst r = lg @ [Some m] \<longleftrightarrow> differ) \<and>
        (fst r = lg \<longleftrightarrow> \<not> differ) \<and>
        (\<not> differ \<longrightarrow> r = (lg, Inr st)) \<and>
        (differ \<and> reporter e = Abrupt \<longrightarrow> snd r = Inl (TestFail (Some m)))"
  using assms
  by (auto simp: has_equal_ast_def requires_ast_parsed has_equal_ast_body_def Let_def
        report_and_return_def do_test_def split: reporter.splits)

theorem has_equal_ast_compares_repr_witness:
  "trees_parsed (ex_state (PList [ex_ident ''c'' 14]) (PList [ex_ident ''b'' 14])) \<and>
   has_equal_ast (ex_env Abrupt) (ex_state (PList [ex_ident ''c'' 14]) (PList [ex_ident ''b'' 14]))
     equal_ast_msg None ''sql_script'' True [] =
     ([Some equal_ast_msg], Inl (TestFail (Some equal_ast_msg))) \<and>
   trees_parsed (ex_state (PList [ex_ident ''b'' 9]) (PList [ex_ident ''b'' 14])) \<and>
   has_equal_ast (ex_env Abrupt) (ex_state (PList [ex_ident ''b'' 9]) (PList [ex_ident ''b'' 14]))
     equal_ast_msg None ''sql_script'' True [] =
     ([], Inr (ex_state (PList [ex_ident ''b'' 9]) (PList [ex_ident ''b'' 14]))) \<and>
   has_equal_ast (ex_env Abrupt) (ex_state (PList [ex_ident ''b'' 9]) (PList [ex_ident ''b'' 14]))
     equal_ast_msg (Some ''b'') ''expression'' False [] =
     ([], Inr (ex_state (PList [ex_ident ''b'' 9]) (PList [ex_ident ''b'' 14])))"
  using
    has_equal_ast_compares_repr [where st = "ex_state (PList [ex_ident ''c'' 14]) (PList [ex_ident ''b'' 14])"
      and sql = None and e = "ex_env Abrupt" and start = "''sql_script''" and msg = equal_ast_msg
      and exact = True and lg = "[]"]
    has_equal_ast_compares_repr [where st = "ex_state (PList [ex_ident ''b'' 9]) (PList [ex_ident ''b'' 14])"
      and sql = None and e = "ex_env Abrupt" and start = "''sql_script''" and msg = equal_ast_msg
      and exact = True and lg = "[]"]
    has_equal_ast_compares_repr [where st = "ex_state (PList [ex_ident ''b'' 9]) (PList [ex_ident ''b'' 14])"
      and sql = "Some ''b''" and e = "ex_env Abrupt" and start = "''expression''" and msg = equal_ast_msg
      and exact = False and lg = "[]"]
  by (simp add: trees_parsed_def ex_state_def ex_env_def ex_ident_def ex_parse_def Let_def
        str_in_def prod_eq_iff equal_ast_msg_def sublist_code get_str_def extra_text_def
        MSG_CHECK_FALLBACK_def)

text \<open>
  C10. Sub-match monotonicity. Let the representation of a node contain the representation of
  each of its field values, and that of a list the representation of each of its items
  (\<open>None\<close> apart): the trees are represented structurally. If \<open>has_equal_ast\<close> with a snippet
  and \<open>exact=False\<close> succeeds on a State with parsed trees, it succeeds on the State whose
  student tree is any larger tree in which the former student tree occurs unchanged.
\<close>

theorem has_equal_ast_submatch_monotone:
  assumes fields: "\<And>tag fs sp k v. (k, v) \<in> set fs \<Longrightarrow> v \<noteq> PNone \<Longrightarrow>
                     str_in (ast_repr e v) (ast_repr e (PNode tag fs sp))"
      and items: "\<And>xs v. v \<in> set xs \<Longrightarrow> v \<noteq> PNone \<Longrightarrow>
                     str_in (ast_repr e v) (ast_repr e (PList xs))"
      and parsed: "trees_parsed st"
      and succeeds: "has_equal_ast e st msg (Some snippet) start False lg = (lg, Inr st)"
      and larger: "subtree (student_ast st) bigger"
  shows "has_equal_ast e (st\<lparr>student_ast := bigger\<rparr>) msg (Some snippet) start False lg =
           (lg, Inr (st\<lparr>student_ast := bigger\<rparr>))"
proof -
  have p': "trees_parsed (st\<lparr>student_ast := bigger\<rparr>)"
    using parsed subtree_parsed [OF larger] by (simp add: trees_parsed_def)
  have "str_in (ast_repr e (ast_parse e snippet start)) (ast_repr e (student_ast st))"
    using succeeds has_equal_ast_success [OF parsed, of e msg "Some snippet" start lg] by simp
  moreover have "str_in (ast_repr e (student_ast st)) (ast_repr e bigger)"
    using fields items larger by (rule subtree_repr)
  ultimately have "str_in (ast_repr e (ast_parse e snippet start)) (ast_repr e bigger)"
    by (rule str_in_trans)
  then show ?thesis
    using has_equal_ast_success [OF p', of e msg "Some snippet" start lg] by simp
qed

theorem has_equal_ast_submatch_monotone_witness:
  "trees_parsed (ex_state (PList [ex_ident ''b'' 14]) (PList [ex_ident ''b'' 14])) \<and>
   has_equal_ast (ex_env Abrupt) (ex_state (PList [ex_ident ''b'' 14]) (PList [ex_ident ''b'' 14]))
     equal_ast_msg (Some ''b'') ''expression'' False [] =
     ([], Inr (ex_state (PList [ex_ident ''b'' 14]) (PList [ex_ident ''b'' 14]))) \<and>
   subtree (PList [ex_ident ''b'' 14]) (ex_stmt ''b'') \<and>
   has_equal_ast (ex_env Abrupt) (ex_state (ex_stmt ''b'') (PList [ex_ident ''b'' 14]))
     equal_ast_msg (Some ''b'') ''expression'' False [] =
     ([], Inr (ex_state (ex_stmt ''b'') (PList [ex_ident ''b'' 14])))"
proof -
  let ?st = "ex_state (PList [ex_ident ''b'' 14]) (PList [ex_ident ''b'' 14])"
  have fields: "\<And>tag fs sp k v. (k, v) \<in> set fs \<Longrightarrow> v \<noteq> PNone \<Longrightarrow>
      str_in (ast_repr (ex_env Abrupt) v) (ast_repr (ex_env Abrupt) (PNode tag fs sp))"
    by (simp add: ex_env_def ex_repr_field del: ex_repr.simps)
  have items: "\<And>xs v. v \<in> set xs \<Longrightarrow> v \<noteq> PNone \<Longrightarrow>
      str_in (ast_repr (ex_env Abrupt) v) (ast_repr (ex_env Abrupt) (PList xs))"
    by (simp add: ex_env_def ex_repr_item del: ex_repr.simps)
  have parsed: "trees_parsed ?st"
    by (simp add: trees_parsed_def ex_state_def)
  have succeeds: "has_equal_ast (ex_env Abrupt) ?st equal_ast_msg (Some ''b'') ''expression''
      False [] = ([], Inr ?st)"
    by (simp add: has_equal_ast_def requires_ast_def has_equal_ast_body_def Let_def
          ex_state_def ex_env_def ex_parse_def ex_ident_def str_in_def sublist_code)
  have larger: "subtree (student_ast ?st) (ex_stmt ''b'')"
    unfolding ex_stmt_def
    by (rule subtree_field [of "''from_clause''" "PList [ex_ident ''b'' 14]"])
       (simp_all add: ex_state_def subtree_refl)
  have "?st\<lparr>student_ast := ex_stmt ''b''\<rparr> = ex_state (ex_stmt ''b'') (PList [ex_ident ''b'' 14])"
    by (simp add: ex_state_def)
  with has_equal_ast_submatch_monotone [OF fields items parsed succeeds larger]
    parsed succeeds larger
  show ?thesis by (simp add: ex_state_def)
qed

subsection \<open>check_node\<close>

text \<open>
  C2 (as amended). Index fidelity holds on the States that \<open>requires_ast\<close> lets through.
  Let both trees be there and parsed, and let the dispatcher return exactly \<open>k\<close> nodes of
  the name under the solution tree. For an index \<open>0 \<le> i < k\<close> that is also in range on the
  student side, \<open>check_node\<close> returns the child State on the \<open>i\<close>-th student node and the
  \<open>i\<close>-th solution node, with one Action more in the history. For every index \<open>i \<ge> k\<close> it
  raises the IndexError of the author and reports nothing.
\<close>

theorem check_node_index_fidelity:
  assumes "trees_parsed st"
      and "length (select e name priority (solution_ast st)) = k"
      and "0 \<le> index"
  shows
    "(index < int k \<and> index < int (length (select e name priority (student_ast st))) \<longrightarrow>
        check_node e st name index missing_msg priority lg =
          (lg, Inr (st\<lparr>student_ast := select e name priority (student_ast st) ! nat index,
                       solution_ast := select e name priority (solution_ast st) ! nat index,
                       history := history st @
                         [CheckNodeAction name index
                            (select e name priority (student_ast st) ! nat index)]\<rparr>))) \<and>
     (int k \<le> index \<longrightarrow>
        check_node e st name index missing_msg priority lg =
          (lg, Inl (IndexError
             (''Can't get '' @ name @ '' statement at index '' @ str_int index))))"
  using assms
  by (auto simp: check_node_def requires_ast_parsed check_node_body_def list_index_nonneg
        to_child_def)

theorem check_node_index_fidelity_witness:
  "trees_parsed (ex_state (ex_script ''c'') (ex_script ''b'')) \<and>
   length (select (ex_env Abrupt) ''SelectStmt'' None
             (solution_ast (ex_state (ex_script ''c'') (ex_script ''b'')))) = 1 \<and>
   check_node (ex_env Abrupt) (ex_state (ex_script ''c'') (ex_script ''b'')) ''SelectStmt'' 0
     node_missing_msg None [] =
     ([], Inr ((ex_state (ex_stmt ''c'') (ex_stmt ''b''))
                \<lparr>history := [CheckNodeAction ''SelectStmt'' 0 (ex_stmt ''c'')]\<rparr>)) \<and>
   check_node (ex_env Abrupt) (ex_state (ex_script ''c'') (ex_script ''b'')) ''SelectStmt'' 1
     node_missing_msg None [] =
     ([], Inl (IndexError ''Can't get SelectStmt statement at index 1''))"
  using
    check_node_index_fidelity [where st = "ex_state (ex_script ''c'') (ex_script ''b'')"
      and e = "ex_env Abrupt" and name = "''SelectStmt''" and priority = None and k = 1
      and index = 0 and missing_msg = node_missing_msg and lg = "[]"]
    check_node_index_fidelity [where st = "ex_state (ex_script ''c'') (ex_script ''b'')"
      and e = "ex_env Abrupt" and name = "''SelectStmt''" and priority = None and k = 1
      and index = 1 and missing_msg = node_missing_msg and lg = "[]"]
  by (simp add: trees_parsed_def ex_state_def ex_env_def ex_script_def ex_select_def ex_stmt_def
        str_int_def str_nat.simps)

text \<open>
  The claim as stated, for every State, fails: with a student tree that did not parse, the
  guard returns the State as it is also for an index beyond the solution's nodes.
\<close>

theorem check_node_index_fidelity_counterexample:
  "length (select (ex_env Abrupt) ''SelectStmt'' None
             (solution_ast (ex_state PParseError (ex_script ''b'')))) = 1 \<and>
   check_node (ex_env Abrupt) (ex_state PParseError (ex_script ''b'')) ''SelectStmt'' 1
     node_missing_msg None [] = ([], Inr (ex_state PParseError (ex_script ''b'')))"
  by (simp add: check_node_def requires_ast_def ex_state_def ex_env_def ex_script_def
        ex_select_def ex_stmt_def)

text \<open>
  C8. In the body of \<open>check_node\<close>, when the solution-side lookup at the index gives a node
  and the index is out of range in the student-side list, the message is the missing-message
  template filled by \<open>describe\<close> for the solution node and the index, or
  \<open>MSG_CHECK_FALLBACK\<close> when \<open>describe\<close> yields \<open>None\<close> or the empty string. It is handed
  to the reporter, and no child State is returned: the outcome is the student-facing failure
  when the reporter leaves abruptly. On parsed trees, where the guard runs the body, this is
  the outcome of \<open>check_node\<close>.
\<close>

theorem check_node_student_missing:
  assumes "list_index (select e name priority (solution_ast st)) index = Some sol_stmt"
      and "list_index (select e name priority (student_ast st)) index = None"
  shows
    "let d = describe e sol_stmt missing_msg None (Some index);
         m = (case d of
                None \<Rightarrow> MSG_CHECK_FALLBACK
              | Some s \<Rightarrow> if s = [] then MSG_CHECK_FALLBACK else s);
         r = check_node_body e name index missing_msg priority st lg
     in fst r = lg @ [Some m] \<and>
        snd r = (case reporter e of
                   Abrupt \<Rightarrow> Inl (TestFail (Some m))
                 | Terminal \<Rightarrow> Inl (UnboundLocalError ''stu_stmt'')) \<and>
        (trees_parsed st \<longrightarrow> check_node e st name index missing_msg priority lg = r)"
  using assms
  by (cases "describe e sol_stmt missing_msg None (Some index)")
     (auto simp: check_node_def requires_ast_parsed check_node_body_def do_test_def Let_def
        split: reporter.splits)

theorem check_node_student_missing_witness:
  "trees_parsed (ex_state (PNode ''Script'' [(''body'', PList [])] (0, 0)) (ex_script ''b'')) \<and>
   list_index (select (ex_env Abrupt) ''SelectStmt'' None (ex_script ''b'')) 0 =
     Some (ex_stmt ''b'') \<and>
   list_index (select (ex_env Abrupt) ''SelectStmt'' None
     (PNode ''Script'' [(''body'', PList [])] (0, 0))) 0 = None \<and>
   check_node (ex_env Abrupt)
     (ex_state (PNode ''Script'' [(''body'', PList [])] (0, 0)) (ex_script ''b''))
     ''SelectStmt'' 0 node_missing_msg None [] =
     ([Some ''Could not find the {index}{node_name}. [SelectStmt]''],
      Inl (TestFail (Some ''Could not find the {index}{node_name}. [SelectStmt]''))) \<and>
   check_node ((ex_env Abrupt)\<lparr>describe := \<lambda>node msg field index. None\<rparr>)
     (ex_state (PNode ''Script'' [(''body'', PList [])] (0, 0)) (ex_script ''b''))
     ''SelectStmt'' 0 node_missing_msg None [] =
     ([Some ''Your submission is incorrect. Try again!''],
      Inl (TestFail (Some ''Your submission is incorrect. Try again!'')))"
  using
    check_node_student_missing [where e = "ex_env Abrupt" and name = "''SelectStmt''"
      and st = "ex_state (PNode ''Script'' [(''body'', PList [])] (0, 0)) (ex_script ''b'')"
      and priority = None and index = 0 and sol_stmt = "ex_stmt ''b''"
      and missing_msg = node_missing_msg and lg = "[]"]
    check_node_student_missing [where e = "(ex_env Abrupt)\<lparr>describe := \<lambda>node msg field index. None\<rparr>"
      and name = "''SelectStmt''"
      and st = "ex_state (PNode ''Script'' [(''body'', PList [])] (0, 0)) (ex_script ''b'')"
      and priority = None and index = 0 and sol_stmt = "ex_stmt ''b''"
      and missing_msg = node_missing_msg and lg = "[]"]
  by (simp add: trees_parsed_def ex_state_def ex_env_def ex_script_def ex_select_def ex_stmt_def
        ex_describe_def list_index_def node_missing_msg_def MSG_CHECK_FALLBACK_def prod_eq_iff
        Let_def)

subsection \<open>check_field\<close>

text \<open>
  C6. In \<open>check_field\<close>, when the field resolves on both sides, the student-side value is
  \<open>None\<close> and the solution-side value is not, the failure is to be reported with the same
  diagnostic as in the lookup-failure case. The code hands the result of \<open>describe\<close> to the
  reporter as it is, without \<open>or MSG_CHECK_FALLBACK\<close>. With a dispatcher whose \<open>describe\<close>
  yields \<open>None\<close>, a student node whose \<open>from_clause\<close> is \<open>None\<close> makes \<open>check_field\<close> report
  \<open>None\<close>, where a student node without the field makes it report the fallback message.
\<close>

theorem check_field_none_marker_no_fallback:
  "check_field ((ex_env Abrupt)\<lparr>describe := \<lambda>node msg field index. None\<rparr>)
     (ex_state (PNode ''SelectStmt'' [(''target_list'', PList [ex_ident ''a'' 7]),
        (''from_clause'', PNone)] (0, 7)) (ex_stmt ''b''))
     ''from_clause'' None field_missing_msg [] =
     ([None], Inl (TestFail None)) \<and>
   check_field ((ex_env Abrupt)\<lparr>describe := \<lambda>node msg field index. None\<rparr>)
     (ex_state (PNode ''SelectStmt'' [(''target_list'', PList [ex_ident ''a'' 7])] (0, 7))
        (ex_stmt ''b''))
     ''from_clause'' None field_missing_msg [] =
     ([Some ''Your submission is incorrect. Try again!''],
      Inl (TestFail (Some ''Your submission is incorrect. Try again!'')))"
  by (simp add: check_field_def requires_ast_def check_field_body_def check_field_rest_def
        do_test_def sol_lookup_def ex_state_def ex_env_def ex_stmt_def MSG_CHECK_FALLBACK_def)

subsection \<open>The reporter\<close>

text \<open>
  C9 (as amended). With a reporter that leaves abruptly, a \<open>check_node\<close> or \<open>check_field\<close>
  whose student-side lookup failed halts the chain with the reported student-facing failure.
\<close>

theorem lookup_failure_halts_abrupt:
  assumes "reporter e = Abrupt" and "trees_parsed st"
  shows
    "(list_index (select e name priority (solution_ast st)) index = Some sol_stmt \<and>
      list_index (select e name priority (student_ast st)) index = None \<longrightarrow>
        check_node e st name index missing_msg priority lg =
          (lg @ [Some (msg_or (describe e sol_stmt missing_msg None (Some index))
                         MSG_CHECK_FALLBACK)],
           Inl (TestFail (Some (msg_or (describe e sol_stmt missing_msg None (Some index))
                                  MSG_CHECK_FALLBACK))))) \<and>
     (sol_lookup (solution_ast st) field field_index = Inr sol_attr \<and>
      stu_lookup (student_ast st) field field_index = Inl err \<longrightarrow>
        check_field e st field field_index missing_msg lg =
          (lg @ [Some (msg_or (describe e (student_ast st) missing_msg (Some field) field_index)
                         MSG_CHECK_FALLBACK)],
           Inl (TestFail
                  (Some (msg_or (describe e (student_ast st) missing_msg (Some field) field_index)
                           MSG_CHECK_FALLBACK)))))"
  using assms
  by (auto simp: check_node_def check_field_def requires_ast_parsed check_node_body_def
        check_field_body_def do_test_def stu_lookup_unfold split: sum.splits option.splits)

theorem lookup_failure_halts_abrupt_witness:
  "reporter (ex_env Abrupt) = Abrupt \<and>
   trees_parsed (ex_state (PNode ''Script'' [(''body'', PList [])] (0, 0)) (ex_script ''b'')) \<and>
   check_node (ex_env Abrupt)
     (ex_state (PNode ''Script'' [(''body'', PList [])] (0, 0)) (ex_script ''b''))
     ''SelectStmt'' 0 node_missing_msg None [] =
     ([Some ''Could not find the {index}{node_name}. [SelectStmt]''],
      Inl (TestFail (Some ''Could not find the {index}{node_name}. [SelectStmt]''))) \<and>
   trees_parsed (ex_state (PNode ''SelectStmt'' [(''target_list'', PList [ex_ident ''a'' 7])] (0, 7))
     (ex_stmt ''b'')) \<and>
   check_field (ex_env Abrupt)
     (ex_state (PNode ''SelectStmt'' [(''target_list'', PList [ex_ident ''a'' 7])] (0, 7))
        (ex_stmt ''b''))
     ''from_clause'' None field_missing_msg [] =
     ([Some ''Could not find the {index}{field_name} of the {node_name}. [SelectStmt]''],
      Inl (TestFail
        (Some ''Could not find the {index}{field_name} of the {node_name}. [SelectStmt]'')))"
  using
    lookup_failure_halts_abrupt [where e = "ex_env Abrupt" and name = "''SelectStmt''"
      and st = "ex_state (PNode ''Script'' [(''body'', PList [])] (0, 0)) (ex_script ''b'')"
      and priority = None and index = 0 and sol_stmt = "ex_stmt ''b''"
      and missing_msg = node_missing_msg and lg = "[]"]
    lookup_failure_halts_abrupt [where e = "ex_env Abrupt" and field = "''from_clause''"
      and st = "ex_state (PNode ''SelectStmt'' [(''target_list'', PList [ex_ident ''a'' 7])] (0, 7))
        (ex_stmt ''b'')"
      and field_index = None and sol_attr = "PList [ex_ident ''b'' 14]"
      and err = "AttributeError ''from_clause''"
      and missing_msg = field_missing_msg and lg = "[]"]
  by (simp add: trees_parsed_def ex_state_def ex_env_def ex_stmt_def ex_script_def ex_select_def
        sol_lookup_def stu_lookup_def list_index_def
        ex_describe_def field_missing_msg_def node_missing_msg_def)

text \<open>
  The claim as stated fails for a reporter that returns to its caller: the checks discard
  what it returns and go on to read the variable that the failed lookup never bound.
\<close>

theorem returning_reporter_counterexample:
  "check_node (ex_env Terminal)
     (ex_state (PNode ''Script'' [(''body'', PList [])] (0, 0)) (ex_script ''b''))
     ''SelectStmt'' 0 node_missing_msg None [] =
     ([Some ''Could not find the {index}{node_name}. [SelectStmt]''],
      Inl (UnboundLocalError ''stu_stmt'')) \<and>
   check_field (ex_env Terminal)
     (ex_state (PNode ''SelectStmt'' [(''target_list'', PList [ex_ident ''a'' 7])] (0, 7))
        (ex_stmt ''b''))
     ''from_clause'' None field_missing_msg [] =
     ([Some ''Could not find the {index}{field_name} of the {node_name}. [SelectStmt]''],
      Inl (UnboundLocalError ''stu_attr''))"
  by (simp add: check_node_def check_field_def requires_ast_def check_node_body_def
        check_field_body_def do_test_def ex_state_def ex_env_def ex_stmt_def ex_script_def
        ex_select_def sol_lookup_def stu_lookup_def list_index_def ex_describe_def
        field_missing_msg_def node_missing_msg_def)

subsection \<open>has_code\<close>

text \<open>
  C7. \<open>has_code\<close> is to test the pattern against the source text of the student focus for
  every State, with the whole student code as the fallback. The code calls \<open>_get_text\<close> on
  every focus that is not a ParseError. On the list that \<open>check_field\<close> returns for the field
  \<open>from_clause\<close> of the statement \<open>SELECT a FROM c\<close>, and on a State without trees, this is an
  AttributeError: the pattern, which the student code contains, is not searched, and
  nothing is returned or reported.
\<close>

theorem has_code_list_focus_raises:
  "narrow_chain (ex_env Abrupt) (ex_state (ex_script ''c'') (ex_script ''b''))
     [CheckNode ''SelectStmt'' 0 node_missing_msg None,
      CheckField ''from_clause'' None field_missing_msg] [] =
     Some ([], (ex_state (PList [ex_ident ''c'' 14]) (PList [ex_ident ''b'' 14]))
                 \<lparr>history := [CheckNodeAction ''SelectStmt'' 0 (ex_stmt ''c''),
                              CheckFieldAction ''from_clause'' None]\<rparr>) \<and>
   str_in ''c'' ''SELECT a FROM c'' \<and>
   has_code (ex_env Abrupt)
     ((ex_state (PList [ex_ident ''c'' 14]) (PList [ex_ident ''b'' 14]))
        \<lparr>history := [CheckNodeAction ''SelectStmt'' 0 (ex_stmt ''c''),
                     CheckFieldAction ''from_clause'' None]\<rparr>)
     ''c'' has_code_msg True [] = ([], Inl (AttributeError ''_get_text'')) \<and>
   has_code (ex_env Abrupt) (ex_state PNone PNone) ''c'' has_code_msg True [] =
     ([], Inl (AttributeError ''_get_text''))"
  by (simp add: check_node_def check_field_def requires_ast_def check_node_body_def
        check_field_body_def check_field_rest_def trees_parsed_def to_child_def has_code_def
        ex_state_def ex_env_def ex_stmt_def ex_script_def ex_select_def
        sol_lookup_def list_index_def str_in_def sublist_code)

subsection \<open>History\<close>

text \<open>
  C4 (as amended). A \<open>check_node\<close> or \<open>check_field\<close> that runs on parsed trees and returns a
  State returns a child whose history is the history of the parent with exactly one Action
  appended: it is one longer, and without its last Action it is the history of the parent,
  which is unchanged (States are values, and the source assigns to no attribute of the
  State it is given). After a chain of \<open>n\<close> primitives that narrow and report nothing, from
  a root with an empty history, the history has length \<open>n\<close>; and when every \<open>check_node\<close> of
  the chain ran with the default priority, replaying the recorded pairs on the root trees
  gives the student and the solution tree of the final State.
\<close>

theorem history_append_only:
  "(trees_parsed st \<and> check_node e st name index missing_msg priority lg = (lg', Inr c) \<longrightarrow>
      history c = history st @ [CheckNodeAction name index (student_ast c)] \<and>
      length (history c) = length (history st) + 1 \<and>
      butlast (history c) = history st) \<and>
   (trees_parsed st \<and> check_field e st name field_index missing_msg lg = (lg', Inr c) \<longrightarrow>
      history c = history st @ [CheckFieldAction name field_index] \<and>
      length (history c) = length (history st) + 1 \<and>
      butlast (history c) = history st) \<and>
   (history root = [] \<and> narrow_chain e root ps lg = Some (lg', s) \<longrightarrow>
      length (history s) = length ps \<and>
      (list_all default_priority ps \<longrightarrow>
         replay e (student_ast root) (history s) = Some (student_ast s) \<and>
         replay e (solution_ast root) (history s) = Some (solution_ast s)))"
proof (intro conjI impI)
  assume h: "trees_parsed st \<and>
    check_node e st name index missing_msg priority lg = (lg', Inr c)"
  then have n: "history c = history st @ [CheckNodeAction name index (student_ast c)]"
    using check_node_narrows by blast
  show "history c = history st @ [CheckNodeAction name index (student_ast c)]" by (rule n)
  show "length (history c) = length (history st) + 1" using n by simp
  show "butlast (history c) = history st" using n by simp
next
  assume h: "trees_parsed st \<and> check_field e st name field_index missing_msg lg = (lg', Inr c)"
  then have n: "history c = history st @ [CheckFieldAction name field_index]"
    using check_field_history by blast
  show "history c = history st @ [CheckFieldAction name field_index]" by (rule n)
  show "length (history c) = length (history st) + 1" using n by simp
  show "butlast (history c) = history st" using n by simp
next
  assume h: "history root = [] \<and> narrow_chain e root ps lg = Some (lg', s)"
  with narrow_chain_history [of e root ps lg lg' s]
  show "length (history s) = length ps" by auto
  assume "list_all default_priority ps"
  with h narrow_chain_history [of e root ps lg lg' s]
  show "replay e (student_ast root) (history s) = Some (student_ast s)"
    and "replay e (solution_ast root) (history s) = Some (solution_ast s)" by auto
qed

theorem history_append_only_witness:
  "trees_parsed (ex_state (ex_script ''c'') (ex_script ''b'')) \<and>
   check_node (ex_env Abrupt) (ex_state (ex_script ''c'') (ex_script ''b'')) ''SelectStmt'' 0
     node_missing_msg None [] =
     ([], Inr ((ex_state (ex_stmt ''c'') (ex_stmt ''b''))
                \<lparr>history := [CheckNodeAction ''SelectStmt'' 0 (ex_stmt ''c'')]\<rparr>)) \<and>
   trees_parsed (ex_state (ex_stmt ''c'') (ex_stmt ''b'')) \<and>
   check_field (ex_env Abrupt) (ex_state (ex_stmt ''c'') (ex_stmt ''b'')) ''from_clause'' (Some 0)
     field_missing_msg [] =
     ([], Inr ((ex_state (ex_ident ''c'' 14) (ex_ident ''b'' 14))
                \<lparr>history := [CheckFieldAction ''from_clause'' (Some 0)]\<rparr>)) \<and>
   history (ex_state (ex_script ''c'') (ex_script ''b'')) = [] \<and>
   narrow_chain (ex_env Abrupt) (ex_state (ex_script ''c'') (ex_script ''b''))
     [CheckNode ''SelectStmt'' 0 node_missing_msg None,
      CheckField ''from_clause'' (Some 0) field_missing_msg] [] =
     Some ([], (ex_state (ex_ident ''c'' 14) (ex_ident ''b'' 14))
                 \<lparr>history := [CheckNodeAction ''SelectStmt'' 0 (ex_stmt ''c''),
                              CheckFieldAction ''from_clause'' (Some 0)]\<rparr>) \<and>
   list_all default_priority
     [CheckNode ''SelectStmt'' 0 node_missing_msg None,
      CheckField ''from_clause'' (Some 0) field_missing_msg] \<and>
   replay (ex_env Abrupt) (ex_script ''c'')
     [CheckNodeAction ''SelectStmt'' 0 (ex_stmt ''c''),
      CheckFieldAction ''from_clause'' (Some 0)] = Some (ex_ident ''c'' 14) \<and>
   replay (ex_env Abrupt) (ex_script ''b'')
     [CheckNodeAction ''SelectStmt'' 0 (ex_stmt ''c''),
      CheckFieldAction ''from_clause'' (Some 0)] = Some (ex_ident ''b'' 14)"
proof -
  let ?root = "ex_state (ex_script ''c'') (ex_script ''b'')"
  let ?mid = "ex_state (ex_stmt ''c'') (ex_stmt ''b'')"
  let ?steps = "[CheckNode ''SelectStmt'' 0 node_missing_msg None,
                 CheckField ''from_clause'' (Some 0) field_missing_msg]"
  let ?end = "(ex_state (ex_ident ''c'' 14) (ex_ident ''b'' 14))
                 \<lparr>history := [CheckNodeAction ''SelectStmt'' 0 (ex_stmt ''c''),
                              CheckFieldAction ''from_clause'' (Some 0)]\<rparr>"
  have p1: "trees_parsed ?root"
    by (simp add: trees_parsed_def ex_state_def ex_script_def)
  have p2: "trees_parsed ?mid"
    by (simp add: trees_parsed_def ex_state_def ex_stmt_def)
  have n: "check_node (ex_env Abrupt) ?root ''SelectStmt'' 0 node_missing_msg None [] =
      ([], Inr (?mid\<lparr>history := [CheckNodeAction ''SelectStmt'' 0 (ex_stmt ''c'')]\<rparr>))"
    by (simp add: check_node_def requires_ast_def check_node_body_def to_child_def
          ex_state_def ex_env_def ex_script_def ex_select_def ex_stmt_def list_index_def)
  have f: "check_field (ex_env Abrupt) ?mid ''from_clause'' (Some 0) field_missing_msg [] =
      ([], Inr ((ex_state (ex_ident ''c'' 14) (ex_ident ''b'' 14))
                  \<lparr>history := [CheckFieldAction ''from_clause'' (Some 0)]\<rparr>))"
    by (simp add: check_field_def requires_ast_def check_field_body_def check_field_rest_def
          to_child_def ex_state_def ex_env_def ex_stmt_def ex_ident_def sol_lookup_def
          list_index_def)
  have h0: "history ?root = []"
    by (simp add: ex_state_def)
  have c: "narrow_chain (ex_env Abrupt) ?root ?steps [] = Some ([], ?end)"
    by (simp add: check_node_def check_field_def requires_ast_def check_node_body_def
          check_field_body_def check_field_rest_def trees_parsed_def to_child_def
          ex_state_def ex_env_def ex_stmt_def ex_script_def ex_select_def ex_ident_def
          sol_lookup_def list_index_def)
  have d: "list_all default_priority ?steps"
    by simp
  from history_append_only [where e = "ex_env Abrupt" and root = ?root and ps = ?steps
      and lg = "[]" and lg' = "[]" and s = ?end and st = ?root and c = ?root]
    h0 c d
  have "replay (ex_env Abrupt) (student_ast ?root) (history ?end) = Some (student_ast ?end) \<and>
        replay (ex_env Abrupt) (solution_ast ?root) (history ?end) = Some (solution_ast ?end)"
    by blast
  then have r: "replay (ex_env Abrupt) (ex_script ''c'')
       [CheckNodeAction ''SelectStmt'' 0 (ex_stmt ''c''),
        CheckFieldAction ''from_clause'' (Some 0)] = Some (ex_ident ''c'' 14) \<and>
     replay (ex_env Abrupt) (ex_script ''b'')
       [CheckNodeAction ''SelectStmt'' 0 (ex_stmt ''c''),
        CheckFieldAction ''from_clause'' (Some 0)] = Some (ex_ident ''b'' 14)"
    by (simp add: ex_state_def)
  from p1 n p2 f h0 c d r show ?thesis by blast
qed

text \<open>
  The claim as stated fails when a \<open>check_node\<close> ran with a priority: the Action records the
  name and the index only, and the replay of the pair selects among other nodes.
\<close>

theorem replay_priority_counterexample:
  "history (ex_state ex_nested ex_nested) = [] \<and>
   narrow_chain (ex_env Abrupt) (ex_state ex_nested ex_nested)
     [CheckNode ''SelectStmt'' 1 node_missing_msg (Some 99)] [] =
     Some ([], (ex_state (ex_stmt ''b'') (ex_stmt ''b''))
                 \<lparr>history := [CheckNodeAction ''SelectStmt'' 1 (ex_stmt ''b'')]\<rparr>) \<and>
   replay (ex_env Abrupt) ex_nested [CheckNodeAction ''SelectStmt'' 1 (ex_stmt ''b'')] = None"
  by (simp add: check_node_def requires_ast_def check_node_body_def trees_parsed_def to_child_def
        ex_state_def ex_env_def ex_stmt_def ex_nested_def ex_select_def ex_ident_def
        list_index_def)

end
